theory Spec2Isabelle
  imports Main "HOL-Library.Word"
begin

section \<open>The user programs test4.c and testcow.c of the xv6 copy-on-write tests\<close>

text \<open>
  Both files hold a single function, \<open>main\<close>, a straight-line script over calls into the
  kernel and the user library: \<open>getNumFreePages\<close>, \<open>printf\<close>, \<open>malloc\<close>, \<open>fork\<close>,
  \<open>sleep\<close>, \<open>wait\<close>, \<open>exit\<close>, and one store into the allocated buffer. None of these
  is implemented in the repository, so the model takes what they return as a parameter
  (the record \<open>kernel\<close>) and records every call, in order, with its arguments and its
  result (the list \<open>trace\<close>). A run of the model is the run of one process: after
  \<open>fork\<close> the child executes the same text with \<open>fork\<close> having returned 0, the parent with
  the child's pid, and each of them writes to its own view of the buffer.
\<close>

subsection \<open>Data\<close>

text \<open>
  xv6 runs on 32-bit x86: \<open>int\<close> is a 32-bit word read as two's complement (its order is
  \<open><s\<close>), \<open>uint\<close> a 32-bit word, a \<open>char *\<close> a 32-bit address.
\<close>

type_synonym c_int = "32 word"
type_synonym c_uint = "32 word"
type_synonym addr = "32 word"

datatype event =
    GetNumFreePages c_int
  | Printf c_int string "c_int list"
  | Malloc c_uint addr
  | Fork c_int
  | Sleep c_int
  | Store addr char
  | Wait
  | Exit

text \<open>
  \<open>GetNumFreePages n\<close>: a call of \<open>getNumFreePages()\<close> that returned \<open>n\<close>;
  \<open>Printf fd fmt args\<close>: a call \<open>printf(fd, fmt, args...)\<close>;
  \<open>Malloc n p\<close>: a call \<open>malloc(n)\<close> that returned \<open>p\<close>;
  \<open>Fork pid\<close>: a call \<open>fork()\<close> that returned \<open>pid\<close> in this process;
  \<open>Sleep n\<close>: a call \<open>sleep(n)\<close>;
  \<open>Store a c\<close>: the byte \<open>c\<close> stored at address \<open>a\<close>;
  \<open>Wait\<close>, \<open>Exit\<close>: the calls \<open>wait()\<close> and \<open>exit()\<close>, which take no argument.
\<close>

record kernel =
  free_pages :: "nat \<Rightarrow> c_int"
  malloc_ret :: addr
  fork_ret :: c_int

text \<open>
  \<open>free_pages k i\<close> is what the \<open>i\<close>-th call of \<open>getNumFreePages()\<close> of the process
  returns (counted from 0), \<open>malloc_ret k\<close> what \<open>malloc\<close> returns and \<open>fork_ret k\<close> what
  \<open>fork\<close> returns in the process.
\<close>

datatype status = Running | Exited

record proc =
  status :: status
  trace :: "event list"
  memory :: "addr \<Rightarrow> char"
  measured :: nat

definition start :: "(addr \<Rightarrow> char) \<Rightarrow> proc" where
  "start m = \<lparr>status = Running, trace = [], memory = m, measured = 0\<rparr>"

subsection \<open>The calls\<close>

text \<open>
  \<open>exit()\<close> does not return: a process that has exited performs nothing any more. Every
  call therefore leaves an exited process as it is.
\<close>

definition emit :: "event \<Rightarrow> proc \<Rightarrow> proc" where
  "emit e s = (if status s = Exited then s else s\<lparr>trace := trace s @ [e]\<rparr>)"

definition getNumFreePages :: "kernel \<Rightarrow> proc \<Rightarrow> c_int \<times> proc" where
  "getNumFreePages k s =
     (let n = free_pages k (measured s)
      in (n, if status s = Exited then s
             else (emit (GetNumFreePages n) s)\<lparr>measured := Suc (measured s)\<rparr>))"

definition printf :: "c_int \<Rightarrow> string \<Rightarrow> c_int list \<Rightarrow> proc \<Rightarrow> proc" where
  "printf fd fmt args s = emit (Printf fd fmt args) s"

definition malloc :: "kernel \<Rightarrow> c_uint \<Rightarrow> proc \<Rightarrow> addr \<times> proc" where
  "malloc k n s = (malloc_ret k, emit (Malloc n (malloc_ret k)) s)"

definition fork :: "kernel \<Rightarrow> proc \<Rightarrow> c_int \<times> proc" where
  "fork k s = (fork_ret k, emit (Fork (fork_ret k)) s)"

definition sleep :: "c_int \<Rightarrow> proc \<Rightarrow> proc" where
  "sleep n s = emit (Sleep n) s"

text \<open>\<open>p[i] = c\<close> for a \<open>char *p\<close>: one byte, at address \<open>p + i\<close>.\<close>

definition store :: "addr \<Rightarrow> c_int \<Rightarrow> char \<Rightarrow> proc \<Rightarrow> proc" where
  "store p i c s =
     (if status s = Exited then s
      else (emit (Store (p + i) c) s)\<lparr>memory := (memory s)(p + i := c)\<rparr>)"

definition wait :: "proc \<Rightarrow> proc" where
  "wait s = emit Wait s"

definition exit :: "proc \<Rightarrow> proc" where
  "exit s = (emit Exit s)\<lparr>status := Exited\<rparr>"

subsection \<open>test4.c\<close>

text \<open>
  The text of \<open>main\<close>, statement by statement. An \<open>if\<close> without \<open>else\<close> whose body ends in
  \<open>exit()\<close> leaves an exited process, on which the statements that follow have no effect.
\<close>

definition test4_main :: "kernel \<Rightarrow> proc \<Rightarrow> proc" where
  "test4_main k s0 =
     (let (initial_free_pages, s) = getNumFreePages k s0;
          s = printf 1 ''Initial free pages: %d\<newline>'' [initial_free_pages] s;
          (parent_memory, s) = malloc k 4096 s;
          s = (if parent_memory = 0 then
                 let s = printf 1 ''Memory allocation failed\<newline>'' [] s
                 in exit s
               else s);
          (free_pages_after_alloc, s) = getNumFreePages k s;
          s = printf 1 ''Free pages after allocation: %d\<newline>'' [free_pages_after_alloc] s;
          (pid, s) = fork k s;
          s = (if pid <s 0 then
                 let s = printf 1 ''Fork failed\<newline>'' [] s
                 in exit s
               else s);
          s = (if pid = 0 then
                 let (free_pages_after_fork, s) = getNumFreePages k s;
                     s = sleep 10 s;
                     s = printf 1 ''Free pages after fork (child): %d\<newline>''
                           [free_pages_after_fork] s;
                     s = store parent_memory 0 CHR ''C'' s;
                     s = printf 1 ''Child process modified memory.\<newline>'' [] s;
                     (free_pages_after_modification, s) = getNumFreePages k s;
                     s = printf 1 ''Free pages after modification (child): %d\<newline>''
                           [free_pages_after_modification] s;
                     s = (if free_pages_after_modification = free_pages_after_fork then
                            printf 1 ''COW mechanism working! No new page was allocated to write (child).\<newline>'' [] s
                          else
                            printf 1 ''Something went wrong (child).\<newline>'' [] s)
                 in exit s
               else
                 let (free_pages_after_fork, s) = getNumFreePages k s;
                     s = printf 1 ''Free pages after fork (parent): %d\<newline>''
                           [free_pages_after_fork] s;
                     s = store parent_memory 0 CHR ''P'' s;
                     s = printf 1 ''Parent process modified memory.\<newline>'' [] s;
                     (free_pages_after_modification, s) = getNumFreePages k s;
                     s = printf 1 ''Free pages after modification (parent): %d\<newline>''
                           [free_pages_after_modification] s;
                     s = (if free_pages_after_modification <s free_pages_after_fork then
                            printf 1 ''COW mechanism working! A new page was allocated after write (parent).\<newline>'' [] s
                          else
                            printf 1 ''Something went wrong, no new page allocated after write (parent).\<newline>'' [] s)
                 in wait s)
      in exit s)"

subsection \<open>testcow.c\<close>

definition testcow_main :: "kernel \<Rightarrow> proc \<Rightarrow> proc" where
  "testcow_main k s0 =
     (let (initial_free_pages, s) = getNumFreePages k s0;
          s = printf 1 ''Initial free pages: %d\<newline>'' [initial_free_pages] s;
          (parent_memory, s) = malloc k 4096 s;
          s = (if parent_memory = 0 then
                 let s = printf 1 ''Memory allocation failed\<newline>'' [] s
                 in exit s
               else s);
          (free_pages_after_alloc, s) = getNumFreePages k s;
          s = printf 1 ''Free pages after allocation: %d\<newline>'' [free_pages_after_alloc] s;
          (pid, s) = fork k s;
          s = (if pid <s 0 then
                 let s = printf 1 ''Fork failed\<newline>'' [] s
                 in exit s
               else s);
          (free_pages_after_fork, s) = getNumFreePages k s;
          s = printf 1 ''Free pages after fork: %d\<newline>'' [free_pages_after_fork] s;
          s = (if pid = 0 then
                 let s = store parent_memory 0 CHR ''C'' s;
                     s = printf 1 ''Child process modified memory.\<newline>'' [] s;
                     (free_pages_after_modification, s) = getNumFreePages k s;
                     s = printf 1 ''Free pages after modification: %d\<newline>''
                           [free_pages_after_modification] s;
                     s = (if free_pages_after_modification <s free_pages_after_fork then
                            printf 1 ''COW mechanism working! A new page was allocated after write.\<newline>'' [] s
                          else
                            printf 1 ''Something went wrong, no new page allocated after write.\<newline>'' [] s)
                 in exit s
               else
                 let s = store parent_memory 0 CHR ''P'' s;
                     s = printf 1 ''Parent process modified memory.\<newline>'' [] s;
                     (free_pages_after_modification, s) = getNumFreePages k s;
                     s = printf 1 ''Free pages after modification: %d\<newline>''
                           [free_pages_after_modification] s;
                     s = (if free_pages_after_modification <s free_pages_after_fork then
                            printf 1 ''COW mechanism working! A new page was allocated after write.\<newline>'' [] s
                          else
                            printf 1 ''Something went wrong, no new page allocated after write.\<newline>'' [] s)
                 in wait s)
      in exit s)"

section \<open>What a run shows\<close>

subsection \<open>The free-page counts a process measured\<close>

fun first_count :: "event list \<Rightarrow> c_int option" where
  "first_count [] = None"
| "first_count (GetNumFreePages n # t) = Some n"
| "first_count (e # t) = first_count t"

text \<open>The count measured after \<open>fork\<close>: the first \<open>getNumFreePages()\<close> that follows it.\<close>

fun count_after_fork :: "event list \<Rightarrow> c_int option" where
  "count_after_fork [] = None"
| "count_after_fork (Fork pid # t) = first_count t"
| "count_after_fork (e # t) = count_after_fork t"

text \<open>The count measured after the write: the first \<open>getNumFreePages()\<close> after the store.\<close>

fun count_after_write :: "event list \<Rightarrow> c_int option" where
  "count_after_write [] = None"
| "count_after_write (Store a c # t) = first_count t"
| "count_after_write (e # t) = count_after_write t"

subsection \<open>Verdicts\<close>

text \<open>
  The six verdict lines of the two files begin either with \<open>COW mechanism working!\<close> or
  with \<open>Something went wrong\<close>; no other line that the programs print does.
\<close>

datatype verdict = CowWorking | WentWrong

definition starts_with :: "string \<Rightarrow> string \<Rightarrow> bool" where
  "starts_with p s = (take (length p) s = p)"

fun verdict_of :: "event \<Rightarrow> verdict option" where
  "verdict_of (Printf fd fmt args) =
     (if starts_with ''COW mechanism working!'' fmt then Some CowWorking
      else if starts_with ''Something went wrong'' fmt then Some WentWrong
      else None)"
| "verdict_of e = None"

fun verdicts :: "event list \<Rightarrow> verdict list" where
  "verdicts [] = []"
| "verdicts (e # t) = (case verdict_of e of None \<Rightarrow> verdicts t | Some v \<Rightarrow> v # verdicts t)"

text \<open>The verdict lines themselves, as printed.\<close>

fun verdict_lines :: "event list \<Rightarrow> string list" where
  "verdict_lines [] = []"
| "verdict_lines (Printf fd fmt args # t) =
     (if verdict_of (Printf fd fmt args) = None then verdict_lines t
      else fmt # verdict_lines t)"
| "verdict_lines (e # t) = verdict_lines t"

text \<open>What follows the verdict in a run.\<close>

fun after_verdict :: "event list \<Rightarrow> event list" where
  "after_verdict [] = []"
| "after_verdict (e # t) = (if verdict_of e = None then after_verdict t else t)"

subsection \<open>Steps, calls and stores\<close>

text \<open>
  The steps of a run: its events without the informational lines and without \<open>sleep\<close>,
  each reduced to its kind (and, for an allocation, its size).
\<close>

datatype step = Measure | Allocate c_uint | DoFork | WriteByte | PrintVerdict | DoWait | DoExit

fun step_of :: "event \<Rightarrow> step option" where
  "step_of (GetNumFreePages n) = Some Measure"
| "step_of (Printf fd fmt args) =
     (if verdict_of (Printf fd fmt args) = None then None else Some PrintVerdict)"
| "step_of (Malloc n p) = Some (Allocate n)"
| "step_of (Fork pid) = Some DoFork"
| "step_of (Sleep n) = None"
| "step_of (Store a c) = Some WriteByte"
| "step_of Wait = Some DoWait"
| "step_of Exit = Some DoExit"

fun steps :: "event list \<Rightarrow> step list" where
  "steps [] = []"
| "steps (e # t) = (case step_of e of None \<Rightarrow> steps t | Some x \<Rightarrow> x # steps t)"

text \<open>The calls of a run other than \<open>printf\<close> and \<open>sleep\<close>, with arguments and results.\<close>

fun calls :: "event list \<Rightarrow> event list" where
  "calls [] = []"
| "calls (Printf fd fmt args # t) = calls t"
| "calls (Sleep n # t) = calls t"
| "calls (e # t) = e # calls t"

text \<open>The run from its call of \<open>malloc\<close> on, and from its call of \<open>fork\<close> on.\<close>

fun from_malloc :: "event list \<Rightarrow> event list" where
  "from_malloc [] = []"
| "from_malloc (Malloc n p # t) = Malloc n p # t"
| "from_malloc (e # t) = from_malloc t"

fun from_fork :: "event list \<Rightarrow> event list" where
  "from_fork [] = []"
| "from_fork (Fork pid # t) = Fork pid # t"
| "from_fork (e # t) = from_fork t"

text \<open>The bytes stored, with their addresses.\<close>

fun stores :: "event list \<Rightarrow> (addr \<times> char) list" where
  "stores [] = []"
| "stores (Store a c # t) = (a, c) # stores t"
| "stores (e # t) = stores t"

text \<open>
  The calls that suspend the caller. \<open>wait()\<close> blocks until a child has exited;
  \<open>sleep(n)\<close> lasts \<open>n\<close> clock ticks whatever any other process does.
\<close>

fun suspensions :: "event list \<Rightarrow> event list" where
  "suspensions [] = []"
| "suspensions (Sleep n # t) = Sleep n # suspensions t"
| "suspensions (Wait # t) = Wait # suspensions t"
| "suspensions (e # t) = suspensions t"

subsection \<open>Concrete kernels and memories, for the examples\<close>

definition pages4 :: "c_int \<Rightarrow> c_int \<Rightarrow> c_int \<Rightarrow> c_int \<Rightarrow> nat \<Rightarrow> c_int" where
  "pages4 a b c d i = (if i = 0 then a else if i = 1 then b else if i = 2 then c else d)"

definition zero_memory :: "addr \<Rightarrow> char" where
  "zero_memory a = CHR 0x00"

section \<open>The runs, path by path\<close>

lemma on_running:
  "emit e \<lparr>status = Running, trace = t, memory = m, measured = n\<rparr>
     = \<lparr>status = Running, trace = t @ [e], memory = m, measured = n\<rparr>"
  "getNumFreePages k \<lparr>status = Running, trace = t, memory = m, measured = n\<rparr>
     = (free_pages k n,
        \<lparr>status = Running, trace = t @ [GetNumFreePages (free_pages k n)], memory = m,
         measured = Suc n\<rparr>)"
  "store p i c \<lparr>status = Running, trace = t, memory = m, measured = n\<rparr>
     = \<lparr>status = Running, trace = t @ [Store (p + i) c], memory = m(p + i := c), measured = n\<rparr>"
  "exit \<lparr>status = Running, trace = t, memory = m, measured = n\<rparr>
     = \<lparr>status = Exited, trace = t @ [Exit], memory = m, measured = n\<rparr>"
  by (simp_all add: emit_def getNumFreePages_def store_def exit_def Let_def)

lemma on_exited:
  "emit e \<lparr>status = Exited, trace = t, memory = m, measured = n\<rparr>
     = \<lparr>status = Exited, trace = t, memory = m, measured = n\<rparr>"
  "getNumFreePages k \<lparr>status = Exited, trace = t, memory = m, measured = n\<rparr>
     = (free_pages k n, \<lparr>status = Exited, trace = t, memory = m, measured = n\<rparr>)"
  "store p i c \<lparr>status = Exited, trace = t, memory = m, measured = n\<rparr>
     = \<lparr>status = Exited, trace = t, memory = m, measured = n\<rparr>"
  "exit \<lparr>status = Exited, trace = t, memory = m, measured = n\<rparr>
     = \<lparr>status = Exited, trace = t, memory = m, measured = n\<rparr>"
  by (simp_all add: emit_def getNumFreePages_def store_def exit_def Let_def)

lemmas call_simps =
  start_def on_running on_exited printf_def malloc_def fork_def sleep_def wait_def
  Let_def eval_nat_numeral

lemma test4_alloc_failed:
  assumes "malloc_ret k = 0"
  shows "test4_main k (start m) =
    \<lparr>status = Exited,
     trace = [GetNumFreePages (free_pages k 0),
              Printf 1 ''Initial free pages: %d\<newline>'' [free_pages k 0],
              Malloc 4096 0,
              Printf 1 ''Memory allocation failed\<newline>'' [],
              Exit],
     memory = m, measured = 1\<rparr>"
  using assms by (simp add: test4_main_def call_simps)

lemma test4_fork_failed:
  assumes "malloc_ret k \<noteq> 0" and "fork_ret k <s 0"
  shows "test4_main k (start m) =
    \<lparr>status = Exited,
     trace = [GetNumFreePages (free_pages k 0),
              Printf 1 ''Initial free pages: %d\<newline>'' [free_pages k 0],
              Malloc 4096 (malloc_ret k),
              GetNumFreePages (free_pages k 1),
              Printf 1 ''Free pages after allocation: %d\<newline>'' [free_pages k 1],
              Fork (fork_ret k),
              Printf 1 ''Fork failed\<newline>'' [],
              Exit],
     memory = m, measured = 2\<rparr>"
  using assms by (simp add: test4_main_def call_simps)

lemma test4_child:
  assumes "malloc_ret k \<noteq> 0" and "fork_ret k = 0"
  shows "test4_main k (start m) =
    \<lparr>status = Exited,
     trace = [GetNumFreePages (free_pages k 0),
              Printf 1 ''Initial free pages: %d\<newline>'' [free_pages k 0],
              Malloc 4096 (malloc_ret k),
              GetNumFreePages (free_pages k 1),
              Printf 1 ''Free pages after allocation: %d\<newline>'' [free_pages k 1],
              Fork 0,
              GetNumFreePages (free_pages k 2),
              Sleep 10,
              Printf 1 ''Free pages after fork (child): %d\<newline>'' [free_pages k 2],
              Store (malloc_ret k) CHR ''C'',
              Printf 1 ''Child process modified memory.\<newline>'' [],
              GetNumFreePages (free_pages k 3),
              Printf 1 ''Free pages after modification (child): %d\<newline>'' [free_pages k 3],
              Printf 1 (if free_pages k 3 = free_pages k 2
                        then ''COW mechanism working! No new page was allocated to write (child).\<newline>''
                        else ''Something went wrong (child).\<newline>'') [],
              Exit],
     memory = m(malloc_ret k := CHR ''C''), measured = 4\<rparr>"
  using assms by (simp add: test4_main_def call_simps)

lemma test4_parent:
  assumes "malloc_ret k \<noteq> 0" and "\<not> fork_ret k <s 0" and "fork_ret k \<noteq> 0"
  shows "test4_main k (start m) =
    \<lparr>status = Exited,
     trace = [GetNumFreePages (free_pages k 0),
              Printf 1 ''Initial free pages: %d\<newline>'' [free_pages k 0],
              Malloc 4096 (malloc_ret k),
              GetNumFreePages (free_pages k 1),
              Printf 1 ''Free pages after allocation: %d\<newline>'' [free_pages k 1],
              Fork (fork_ret k),
              GetNumFreePages (free_pages k 2),
              Printf 1 ''Free pages after fork (parent): %d\<newline>'' [free_pages k 2],
              Store (malloc_ret k) CHR ''P'',
              Printf 1 ''Parent process modified memory.\<newline>'' [],
              GetNumFreePages (free_pages k 3),
              Printf 1 ''Free pages after modification (parent): %d\<newline>'' [free_pages k 3],
              Printf 1 (if free_pages k 3 <s free_pages k 2
                        then ''COW mechanism working! A new page was allocated after write (parent).\<newline>''
                        else ''Something went wrong, no new page allocated after write (parent).\<newline>'') [],
              Wait,
              Exit],
     memory = m(malloc_ret k := CHR ''P''), measured = 4\<rparr>"
  using assms by (simp add: test4_main_def call_simps)

lemma testcow_alloc_failed:
  assumes "malloc_ret k = 0"
  shows "testcow_main k (start m) =
    \<lparr>status = Exited,
     trace = [GetNumFreePages (free_pages k 0),
              Printf 1 ''Initial free pages: %d\<newline>'' [free_pages k 0],
              Malloc 4096 0,
              Printf 1 ''Memory allocation failed\<newline>'' [],
              Exit],
     memory = m, measured = 1\<rparr>"
  using assms by (simp add: testcow_main_def call_simps)

lemma testcow_fork_failed:
  assumes "malloc_ret k \<noteq> 0" and "fork_ret k <s 0"
  shows "testcow_main k (start m) =
    \<lparr>status = Exited,
     trace = [GetNumFreePages (free_pages k 0),
              Printf 1 ''Initial free pages: %d\<newline>'' [free_pages k 0],
              Malloc 4096 (malloc_ret k),
              GetNumFreePages (free_pages k 1),
              Printf 1 ''Free pages after allocation: %d\<newline>'' [free_pages k 1],
              Fork (fork_ret k),
              Printf 1 ''Fork failed\<newline>'' [],
              Exit],
     memory = m, measured = 2\<rparr>"
  using assms by (simp add: testcow_main_def call_simps)

lemma testcow_child:
  assumes "malloc_ret k \<noteq> 0" and "fork_ret k = 0"
  shows "testcow_main k (start m) =
    \<lparr>status = Exited,
     trace = [GetNumFreePages (free_pages k 0),
              Printf 1 ''Initial free pages: %d\<newline>'' [free_pages k 0],
              Malloc 4096 (malloc_ret k),
              GetNumFreePages (free_pages k 1),
              Printf 1 ''Free pages after allocation: %d\<newline>'' [free_pages k 1],
              Fork 0,
              GetNumFreePages (free_pages k 2),
              Printf 1 ''Free pages after fork: %d\<newline>'' [free_pages k 2],
              Store (malloc_ret k) CHR ''C'',
              Printf 1 ''Child process modified memory.\<newline>'' [],
              GetNumFreePages (free_pages k 3),
              Printf 1 ''Free pages after modification: %d\<newline>'' [free_pages k 3],
              Printf 1 (if free_pages k 3 <s free_pages k 2
                        then ''COW mechanism working! A new page was allocated after write.\<newline>''
                        else ''Something went wrong, no new page allocated after write.\<newline>'') [],
              Exit],
     memory = m(malloc_ret k := CHR ''C''), measured = 4\<rparr>"
  using assms by (simp add: testcow_main_def call_simps)

lemma testcow_parent:
  assumes "malloc_ret k \<noteq> 0" and "\<not> fork_ret k <s 0" and "fork_ret k \<noteq> 0"
  shows "testcow_main k (start m) =
    \<lparr>status = Exited,
     trace = [GetNumFreePages (free_pages k 0),
              Printf 1 ''Initial free pages: %d\<newline>'' [free_pages k 0],
              Malloc 4096 (malloc_ret k),
              GetNumFreePages (free_pages k 1),
              Printf 1 ''Free pages after allocation: %d\<newline>'' [free_pages k 1],
              Fork (fork_ret k),
              GetNumFreePages (free_pages k 2),
              Printf 1 ''Free pages after fork: %d\<newline>'' [free_pages k 2],
              Store (malloc_ret k) CHR ''P'',
              Printf 1 ''Parent process modified memory.\<newline>'' [],
              GetNumFreePages (free_pages k 3),
              Printf 1 ''Free pages after modification: %d\<newline>'' [free_pages k 3],
              Printf 1 (if free_pages k 3 <s free_pages k 2
                        then ''COW mechanism working! A new page was allocated after write.\<newline>''
                        else ''Something went wrong, no new page allocated after write.\<newline>'') [],
              Wait,
              Exit],
     memory = m(malloc_ret k := CHR ''P''), measured = 4\<rparr>"
  using assms by (simp add: testcow_main_def call_simps)

section \<open>The claims\<close>

text \<open>
  C1. The two files disagree on when the child reports success. In a child (malloc
  returned a buffer, fork returned 0) the count measured after fork is the third
  measurement and the count measured after the write the fourth; test4.c prints its
  child-side success line if and only if the two are equal, testcow.c prints its success
  line if and only if the count after the write is strictly less (as signed ints) than
  the count after fork.
\<close>

theorem child_success_conditions:
  assumes "malloc_ret k \<noteq> 0" and "fork_ret k = 0"
  shows "count_after_fork (trace (test4_main k (start m))) = Some (free_pages k 2)
       \<and> count_after_write (trace (test4_main k (start m))) = Some (free_pages k 3)
       \<and> (Printf 1 ''COW mechanism working! No new page was allocated to write (child).\<newline>'' []
             \<in> set (trace (test4_main k (start m)))
           \<longleftrightarrow> free_pages k 3 = free_pages k 2)
       \<and> count_after_fork (trace (testcow_main k (start m))) = Some (free_pages k 2)
       \<and> count_after_write (trace (testcow_main k (start m))) = Some (free_pages k 3)
       \<and> (Printf 1 ''COW mechanism working! A new page was allocated after write.\<newline>'' []
             \<in> set (trace (testcow_main k (start m)))
           \<longleftrightarrow> free_pages k 3 <s free_pages k 2)"
  using assms by (simp add: test4_child testcow_child)

theorem child_success_conditions_witness:
  "malloc_ret \<lparr>free_pages = pages4 100 99 99 99, malloc_ret = 0x1000, fork_ret = 0\<rparr> \<noteq> 0
   \<and> fork_ret \<lparr>free_pages = pages4 100 99 99 99, malloc_ret = 0x1000, fork_ret = 0\<rparr> = 0
   \<and> Printf 1 ''COW mechanism working! No new page was allocated to write (child).\<newline>'' []
     \<in> set (trace (test4_main
          \<lparr>free_pages = pages4 100 99 99 99, malloc_ret = 0x1000, fork_ret = 0\<rparr>
          (start zero_memory)))
   \<and> Printf 1 ''COW mechanism working! A new page was allocated after write.\<newline>'' []
     \<notin> set (trace (testcow_main
          \<lparr>free_pages = pages4 100 99 99 99, malloc_ret = 0x1000, fork_ret = 0\<rparr>
          (start zero_memory)))"
  using child_success_conditions
    [of "\<lparr>free_pages = pages4 100 99 99 99, malloc_ret = 0x1000, fork_ret = 0\<rparr>" zero_memory]
  by (simp add: pages4_def)

lemma four_paths:
  obtains (alloc_failed) "malloc_ret k = 0"
  | (fork_failed) "malloc_ret k \<noteq> 0" "fork_ret k <s 0" "fork_ret k \<noteq> 0"
  | (child) "malloc_ret k \<noteq> 0" "fork_ret k = 0"
  | (parent) "malloc_ret k \<noteq> 0" "\<not> fork_ret k <s 0" "fork_ret k \<noteq> 0"
  by (cases "malloc_ret k = 0"; cases "fork_ret k = 0"; cases "fork_ret k <s 0") auto

text \<open>
  C2, as stated: test4.c and testcow.c are equivalent, with the same branch decisions and
  the same printed verdicts whatever the external calls return. This fails in a child
  whose count after the write equals its count after fork (here 99 and 99): test4.c
  prints its \<open>COW mechanism working!\<close> line, testcow.c its \<open>Something went wrong\<close> line.
\<close>

theorem programs_equivalent_counterexample:
  "verdicts (trace (test4_main
      \<lparr>free_pages = pages4 100 99 99 99, malloc_ret = 0x1000, fork_ret = 0\<rparr>
      (start zero_memory))) = [CowWorking]
   \<and> verdicts (trace (testcow_main
      \<lparr>free_pages = pages4 100 99 99 99, malloc_ret = 0x1000, fork_ret = 0\<rparr>
      (start zero_memory))) = [WentWrong]"
  by (simp add: test4_child testcow_child pages4_def starts_with_def)

text \<open>
  C2, amended: whatever the external calls return, the two programs perform the same
  calls other than \<open>printf\<close> and \<open>sleep\<close> (same order, arguments and results, so the same
  branch decisions), leave the same memory and both exit; and they print the same
  verdicts except in a child whose count after the write is less than or equal to its
  count after fork, where they print different verdicts.
\<close>

theorem programs_agree_except_child_verdict:
  "calls (trace (test4_main k (start m))) = calls (trace (testcow_main k (start m)))
   \<and> memory (test4_main k (start m)) = memory (testcow_main k (start m))
   \<and> status (test4_main k (start m)) = status (testcow_main k (start m))
   \<and> (verdicts (trace (test4_main k (start m))) = verdicts (trace (testcow_main k (start m)))
        \<longleftrightarrow> \<not> (malloc_ret k \<noteq> 0 \<and> fork_ret k = 0 \<and> free_pages k 3 \<le>s free_pages k 2))"
proof (cases k rule: four_paths)
  case alloc_failed
  then show ?thesis
    by (simp add: test4_alloc_failed testcow_alloc_failed starts_with_def)
next
  case fork_failed
  then show ?thesis
    by (simp add: test4_fork_failed testcow_fork_failed starts_with_def)
next
  case child
  then show ?thesis
    by (auto simp add: test4_child testcow_child starts_with_def word_sless_eq)
next
  case parent
  then show ?thesis
    by (simp add: test4_parent testcow_parent starts_with_def)
qed

theorem programs_agree_except_child_verdict_witness:
  "verdicts (trace (test4_main
      \<lparr>free_pages = pages4 100 99 99 98, malloc_ret = 0x1000, fork_ret = 3\<rparr>
      (start zero_memory)))
   = verdicts (trace (testcow_main
      \<lparr>free_pages = pages4 100 99 99 98, malloc_ret = 0x1000, fork_ret = 3\<rparr>
      (start zero_memory)))
   \<and> verdicts (trace (test4_main
      \<lparr>free_pages = pages4 100 99 99 98, malloc_ret = 0x1000, fork_ret = 0\<rparr>
      (start zero_memory)))
   \<noteq> verdicts (trace (testcow_main
      \<lparr>free_pages = pages4 100 99 99 98, malloc_ret = 0x1000, fork_ret = 0\<rparr>
      (start zero_memory)))"
  using programs_agree_except_child_verdict
    [of "\<lparr>free_pages = pages4 100 99 99 98, malloc_ret = 0x1000, fork_ret = 3\<rparr>" zero_memory]
    programs_agree_except_child_verdict
    [of "\<lparr>free_pages = pages4 100 99 99 98, malloc_ret = 0x1000, fork_ret = 0\<rparr>" zero_memory]
  by (simp add: pages4_def)

text \<open>
  C3. When malloc returns a buffer and fork a non-negative value, both programs go
  through the same steps in this order: measure (baseline), allocate 4096 bytes, measure,
  fork, measure, write one byte, measure, print a verdict; then the child exits, and the
  parent waits and exits. The verdict compares the count measured after fork with the
  count measured after the write (the third and the fourth measurement).
\<close>

theorem order_of_operations:
  assumes "malloc_ret k \<noteq> 0" and "0 \<le>s fork_ret k"
  shows "steps (trace (test4_main k (start m))) =
           [Measure, Allocate 4096, Measure, DoFork, Measure, WriteByte, Measure, PrintVerdict]
           @ (if fork_ret k = 0 then [DoExit] else [DoWait, DoExit])
       \<and> steps (trace (testcow_main k (start m))) =
           [Measure, Allocate 4096, Measure, DoFork, Measure, WriteByte, Measure, PrintVerdict]
           @ (if fork_ret k = 0 then [DoExit] else [DoWait, DoExit])
       \<and> count_after_fork (trace (test4_main k (start m))) = Some (free_pages k 2)
       \<and> count_after_write (trace (test4_main k (start m))) = Some (free_pages k 3)
       \<and> count_after_fork (trace (testcow_main k (start m))) = Some (free_pages k 2)
       \<and> count_after_write (trace (testcow_main k (start m))) = Some (free_pages k 3)
       \<and> verdicts (trace (test4_main k (start m))) =
           [if fork_ret k = 0
            then (if free_pages k 3 = free_pages k 2 then CowWorking else WentWrong)
            else (if free_pages k 3 <s free_pages k 2 then CowWorking else WentWrong)]
       \<and> verdicts (trace (testcow_main k (start m))) =
           [if free_pages k 3 <s free_pages k 2 then CowWorking else WentWrong]"
proof (cases "fork_ret k = 0")
  case True
  with assms show ?thesis
    by (simp add: test4_child testcow_child starts_with_def)
next
  case False
  moreover from assms have "\<not> fork_ret k <s 0"
    by (simp add: signed.not_less)
  ultimately show ?thesis
    using assms by (simp add: test4_parent testcow_parent starts_with_def)
qed

theorem order_of_operations_witness:
  "malloc_ret \<lparr>free_pages = pages4 100 99 99 98, malloc_ret = 0x1000, fork_ret = 3\<rparr> \<noteq> 0
   \<and> 0 \<le>s fork_ret \<lparr>free_pages = pages4 100 99 99 98, malloc_ret = 0x1000, fork_ret = 3\<rparr>
   \<and> steps (trace (test4_main
        \<lparr>free_pages = pages4 100 99 99 98, malloc_ret = 0x1000, fork_ret = 3\<rparr>
        (start zero_memory))) =
        [Measure, Allocate 4096, Measure, DoFork, Measure, WriteByte, Measure, PrintVerdict,
         DoWait, DoExit]
   \<and> verdicts (trace (testcow_main
        \<lparr>free_pages = pages4 100 99 99 98, malloc_ret = 0x1000, fork_ret = 3\<rparr>
        (start zero_memory))) = [CowWorking]"
  using order_of_operations
    [of "\<lparr>free_pages = pages4 100 99 99 98, malloc_ret = 0x1000, fork_ret = 3\<rparr>" zero_memory]
  by (simp add: pages4_def word_sle_eq word_sless_alt)

text \<open>
  C4. If the count measured after the write is strictly less than the count measured
  after fork, the parent of both programs prints its \<open>COW mechanism working!\<close> line, and
  so does the child of testcow.c.
\<close>

theorem cow_contract_gives_success:
  assumes "malloc_ret k \<noteq> 0" and "0 \<le>s fork_ret k"
    and "free_pages k 3 <s free_pages k 2"
  shows "count_after_fork (trace (test4_main k (start m))) = Some (free_pages k 2)
       \<and> count_after_write (trace (test4_main k (start m))) = Some (free_pages k 3)
       \<and> count_after_fork (trace (testcow_main k (start m))) = Some (free_pages k 2)
       \<and> count_after_write (trace (testcow_main k (start m))) = Some (free_pages k 3)
       \<and> (fork_ret k \<noteq> 0 \<longrightarrow>
            Printf 1 ''COW mechanism working! A new page was allocated after write (parent).\<newline>'' []
              \<in> set (trace (test4_main k (start m)))
          \<and> Printf 1 ''COW mechanism working! A new page was allocated after write.\<newline>'' []
              \<in> set (trace (testcow_main k (start m))))
       \<and> (fork_ret k = 0 \<longrightarrow>
            Printf 1 ''COW mechanism working! A new page was allocated after write.\<newline>'' []
              \<in> set (trace (testcow_main k (start m))))"
proof (cases "fork_ret k = 0")
  case True
  with assms show ?thesis
    by (simp add: test4_child testcow_child)
next
  case False
  moreover from assms have "\<not> fork_ret k <s 0"
    by (simp add: signed.not_less)
  ultimately show ?thesis
    using assms by (simp add: test4_parent testcow_parent)
qed

theorem cow_contract_gives_success_witness:
  "pages4 100 99 99 98 3 <s pages4 100 99 99 98 2
   \<and> Printf 1 ''COW mechanism working! A new page was allocated after write (parent).\<newline>'' []
       \<in> set (trace (test4_main
            \<lparr>free_pages = pages4 100 99 99 98, malloc_ret = 0x1000, fork_ret = 3\<rparr>
            (start zero_memory)))
   \<and> Printf 1 ''COW mechanism working! A new page was allocated after write.\<newline>'' []
       \<in> set (trace (testcow_main
            \<lparr>free_pages = pages4 100 99 99 98, malloc_ret = 0x1000, fork_ret = 3\<rparr>
            (start zero_memory)))
   \<and> Printf 1 ''COW mechanism working! A new page was allocated after write.\<newline>'' []
       \<in> set (trace (testcow_main
            \<lparr>free_pages = pages4 100 99 99 98, malloc_ret = 0x1000, fork_ret = 0\<rparr>
            (start zero_memory)))"
  using cow_contract_gives_success
    [of "\<lparr>free_pages = pages4 100 99 99 98, malloc_ret = 0x1000, fork_ret = 3\<rparr>" zero_memory]
    cow_contract_gives_success
    [of "\<lparr>free_pages = pages4 100 99 99 98, malloc_ret = 0x1000, fork_ret = 0\<rparr>" zero_memory]
  by (simp add: pages4_def word_sle_eq word_sless_alt)

text \<open>
  C5. When malloc returns 0, what both programs do from the call of malloc on is: print
  \<open>Memory allocation failed\<close>, call \<open>exit()\<close>; they never call fork. When malloc
  succeeds and fork returns a negative value, what they do from the call of fork on is:
  print \<open>Fork failed\<close>, call \<open>exit()\<close>. In both cases nothing is stored, \<open>wait()\<close> is
  not called, the memory is left as it was, and \<open>exit()\<close> carries no status.
\<close>

theorem failures_print_and_exit:
  "(malloc_ret k = 0 \<longrightarrow>
      from_malloc (trace (test4_main k (start m))) =
        [Malloc 4096 0, Printf 1 ''Memory allocation failed\<newline>'' [], Exit]
    \<and> from_malloc (trace (testcow_main k (start m))) =
        [Malloc 4096 0, Printf 1 ''Memory allocation failed\<newline>'' [], Exit]
    \<and> from_fork (trace (test4_main k (start m))) = []
    \<and> from_fork (trace (testcow_main k (start m))) = [])
   \<and> (malloc_ret k \<noteq> 0 \<and> fork_ret k <s 0 \<longrightarrow>
      from_fork (trace (test4_main k (start m))) =
        [Fork (fork_ret k), Printf 1 ''Fork failed\<newline>'' [], Exit]
    \<and> from_fork (trace (testcow_main k (start m))) =
        [Fork (fork_ret k), Printf 1 ''Fork failed\<newline>'' [], Exit])
   \<and> (malloc_ret k = 0 \<or> fork_ret k <s 0 \<longrightarrow>
      stores (trace (test4_main k (start m))) = []
    \<and> stores (trace (testcow_main k (start m))) = []
    \<and> Wait \<notin> set (trace (test4_main k (start m)))
    \<and> Wait \<notin> set (trace (testcow_main k (start m)))
    \<and> memory (test4_main k (start m)) = m
    \<and> memory (testcow_main k (start m)) = m
    \<and> status (test4_main k (start m)) = Exited
    \<and> status (testcow_main k (start m)) = Exited)"
proof (cases k rule: four_paths)
  case alloc_failed
  then show ?thesis
    by (simp add: test4_alloc_failed testcow_alloc_failed)
next
  case fork_failed
  then show ?thesis
    by (simp add: test4_fork_failed testcow_fork_failed)
next
  case child
  then show ?thesis
    by simp
next
  case parent
  then show ?thesis
    by simp
qed

theorem failures_print_and_exit_witness:
  "from_malloc (trace (test4_main
      \<lparr>free_pages = pages4 100 100 100 100, malloc_ret = 0, fork_ret = 3\<rparr>
      (start zero_memory))) =
     [Malloc 4096 0, Printf 1 ''Memory allocation failed\<newline>'' [], Exit]
   \<and> from_fork (trace (testcow_main
      \<lparr>free_pages = pages4 100 99 99 99, malloc_ret = 0x1000, fork_ret = - 1\<rparr>
      (start zero_memory))) =
     [Fork (- 1), Printf 1 ''Fork failed\<newline>'' [], Exit]
   \<and> memory (testcow_main
      \<lparr>free_pages = pages4 100 99 99 99, malloc_ret = 0x1000, fork_ret = - 1\<rparr>
      (start zero_memory)) = zero_memory"
  using failures_print_and_exit
    [of "\<lparr>free_pages = pages4 100 100 100 100, malloc_ret = 0, fork_ret = 3\<rparr>" zero_memory]
    failures_print_and_exit
    [of "\<lparr>free_pages = pages4 100 99 99 99, malloc_ret = 0x1000, fork_ret = - 1\<rparr>" zero_memory]
  by simp

text \<open>
  C6. In every run of either program at most one byte is stored: none on the failure
  paths, \<open>'C'\<close> at offset 0 of the buffer in the child, \<open>'P'\<close> at offset 0 in the parent.
  The bytes at the offsets 1 to 4095 of the buffer are, at the end, what they were at
  the start.
\<close>

theorem at_most_one_byte_written:
  "stores (trace (test4_main k (start m))) =
     (if malloc_ret k = 0 \<or> fork_ret k <s 0 then []
      else if fork_ret k = 0 then [(malloc_ret k, CHR ''C'')]
      else [(malloc_ret k, CHR ''P'')])
   \<and> stores (trace (testcow_main k (start m))) =
     (if malloc_ret k = 0 \<or> fork_ret k <s 0 then []
      else if fork_ret k = 0 then [(malloc_ret k, CHR ''C'')]
      else [(malloc_ret k, CHR ''P'')])
   \<and> (\<forall>i. 0 < i \<and> i < 4096 \<longrightarrow>
        memory (test4_main k (start m)) (malloc_ret k + i) = m (malloc_ret k + i)
      \<and> memory (testcow_main k (start m)) (malloc_ret k + i) = m (malloc_ret k + i))"
proof (cases k rule: four_paths)
  case alloc_failed
  then show ?thesis
    by (simp add: test4_alloc_failed testcow_alloc_failed)
next
  case fork_failed
  then show ?thesis
    by (simp add: test4_fork_failed testcow_fork_failed)
next
  case child
  then show ?thesis
    by (simp add: test4_child testcow_child)
next
  case parent
  then show ?thesis
    by (simp add: test4_parent testcow_parent)
qed

theorem at_most_one_byte_written_witness:
  "stores (trace (test4_main
      \<lparr>free_pages = pages4 100 99 99 98, malloc_ret = 0x1000, fork_ret = 0\<rparr>
      (start zero_memory))) = [(0x1000, CHR ''C'')]
   \<and> (0 :: addr) < 4095 \<and> (4095 :: addr) < 4096
   \<and> memory (test4_main
      \<lparr>free_pages = pages4 100 99 99 98, malloc_ret = 0x1000, fork_ret = 0\<rparr>
      (start zero_memory)) (0x1000 + 4095) = zero_memory (0x1000 + 4095)
   \<and> memory (testcow_main
      \<lparr>free_pages = pages4 100 99 99 98, malloc_ret = 0x1000, fork_ret = 0\<rparr>
      (start zero_memory)) (0x1000 + 4095) = zero_memory (0x1000 + 4095)"
  using at_most_one_byte_written
    [of "\<lparr>free_pages = pages4 100 99 99 98, malloc_ret = 0x1000, fork_ret = 0\<rparr>" zero_memory,
      THEN conjunct2, THEN conjunct2, THEN spec, of 4095]
    at_most_one_byte_written
    [of "\<lparr>free_pages = pages4 100 99 99 98, malloc_ret = 0x1000, fork_ret = 0\<rparr>" zero_memory,
      THEN conjunct1]
  by simp

text \<open>
  C7. When fork succeeds, the parent of both programs calls \<open>wait()\<close> exactly once,
  right after printing its verdict and right before \<open>exit()\<close>; the child never calls
  \<open>wait()\<close>. No other call of the programs waits for another process: the only other
  call that suspends a process is the \<open>sleep(10)\<close> of the child of test4.c, a delay of
  ten clock ticks.
\<close>

theorem wait_only_in_parent:
  assumes "malloc_ret k \<noteq> 0" and "0 \<le>s fork_ret k"
  shows "(fork_ret k \<noteq> 0 \<longrightarrow>
            count_list (trace (test4_main k (start m))) Wait = 1
          \<and> count_list (trace (testcow_main k (start m))) Wait = 1
          \<and> after_verdict (trace (test4_main k (start m))) = [Wait, Exit]
          \<and> after_verdict (trace (testcow_main k (start m))) = [Wait, Exit]
          \<and> suspensions (trace (test4_main k (start m))) = [Wait]
          \<and> suspensions (trace (testcow_main k (start m))) = [Wait])
       \<and> (fork_ret k = 0 \<longrightarrow>
            Wait \<notin> set (trace (test4_main k (start m)))
          \<and> Wait \<notin> set (trace (testcow_main k (start m)))
          \<and> after_verdict (trace (test4_main k (start m))) = [Exit]
          \<and> after_verdict (trace (testcow_main k (start m))) = [Exit]
          \<and> suspensions (trace (test4_main k (start m))) = [Sleep 10]
          \<and> suspensions (trace (testcow_main k (start m))) = [])"
proof (cases "fork_ret k = 0")
  case True
  with assms show ?thesis
    by (simp add: test4_child testcow_child starts_with_def)
next
  case False
  moreover from assms have "\<not> fork_ret k <s 0"
    by (simp add: signed.not_less)
  ultimately show ?thesis
    using assms by (simp add: test4_parent testcow_parent starts_with_def)
qed

theorem wait_only_in_parent_witness:
  "count_list (trace (test4_main
      \<lparr>free_pages = pages4 100 99 99 98, malloc_ret = 0x1000, fork_ret = 3\<rparr>
      (start zero_memory))) Wait = 1
   \<and> after_verdict (trace (testcow_main
      \<lparr>free_pages = pages4 100 99 99 98, malloc_ret = 0x1000, fork_ret = 3\<rparr>
      (start zero_memory))) = [Wait, Exit]
   \<and> Wait \<notin> set (trace (test4_main
      \<lparr>free_pages = pages4 100 99 99 98, malloc_ret = 0x1000, fork_ret = 0\<rparr>
      (start zero_memory)))
   \<and> Wait \<notin> set (trace (testcow_main
      \<lparr>free_pages = pages4 100 99 99 98, malloc_ret = 0x1000, fork_ret = 0\<rparr>
      (start zero_memory)))"
  using wait_only_in_parent
    [of "\<lparr>free_pages = pages4 100 99 99 98, malloc_ret = 0x1000, fork_ret = 3\<rparr>" zero_memory]
    wait_only_in_parent
    [of "\<lparr>free_pages = pages4 100 99 99 98, malloc_ret = 0x1000, fork_ret = 0\<rparr>" zero_memory]
  by (simp add: word_sle_eq)

text \<open>
  C8. Every run of either program ends in \<open>exit()\<close>, which takes no argument: the
  process has exited when the text of \<open>main\<close> is through, the last call of the run is
  \<open>exit()\<close>, and it is called exactly once. \<open>main\<close> never returns.
\<close>

theorem main_always_exits:
  "status (test4_main k (start m)) = Exited
   \<and> last (trace (test4_main k (start m))) = Exit
   \<and> count_list (trace (test4_main k (start m))) Exit = 1
   \<and> status (testcow_main k (start m)) = Exited
   \<and> last (trace (testcow_main k (start m))) = Exit
   \<and> count_list (trace (testcow_main k (start m))) Exit = 1"
proof (cases k rule: four_paths)
  case alloc_failed
  then show ?thesis
    by (simp add: test4_alloc_failed testcow_alloc_failed)
next
  case fork_failed
  then show ?thesis
    by (simp add: test4_fork_failed testcow_fork_failed)
next
  case child
  then show ?thesis
    by (simp add: test4_child testcow_child)
next
  case parent
  then show ?thesis
    by (simp add: test4_parent testcow_parent)
qed

text \<open>
  C9. The verdict of a run depends only on the counts measured after fork. Two runs of
  the same program in which malloc and fork return the same and every measurement from
  the third on returns the same print the same verdict lines, whatever the first two
  measurements return. Those two are printed (the second when malloc succeeded).
\<close>

theorem verdict_ignores_first_two_counts:
  assumes "malloc_ret k' = malloc_ret k" and "fork_ret k' = fork_ret k"
    and "\<forall>i. 2 \<le> i \<longrightarrow> free_pages k' i = free_pages k i"
  shows "verdict_lines (trace (test4_main k' (start m))) =
           verdict_lines (trace (test4_main k (start m)))
       \<and> verdict_lines (trace (testcow_main k' (start m))) =
           verdict_lines (trace (testcow_main k (start m)))
       \<and> Printf 1 ''Initial free pages: %d\<newline>'' [free_pages k 0]
           \<in> set (trace (test4_main k (start m)))
       \<and> Printf 1 ''Initial free pages: %d\<newline>'' [free_pages k 0]
           \<in> set (trace (testcow_main k (start m)))
       \<and> (malloc_ret k \<noteq> 0 \<longrightarrow>
            Printf 1 ''Free pages after allocation: %d\<newline>'' [free_pages k 1]
              \<in> set (trace (test4_main k (start m)))
          \<and> Printf 1 ''Free pages after allocation: %d\<newline>'' [free_pages k 1]
              \<in> set (trace (testcow_main k (start m))))"
proof -
  from assms(3) have same: "free_pages k' 2 = free_pages k 2" "free_pages k' 3 = free_pages k 3"
    by simp_all
  show ?thesis
  proof (cases k rule: four_paths)
    case alloc_failed
    with assms(1) show ?thesis
      by (simp add: test4_alloc_failed testcow_alloc_failed starts_with_def)
  next
    case fork_failed
    with assms(1,2) show ?thesis
      by (simp add: test4_fork_failed testcow_fork_failed starts_with_def)
  next
    case child
    with assms(1,2) same show ?thesis
      by (simp add: test4_child testcow_child starts_with_def)
  next
    case parent
    with assms(1,2) same show ?thesis
      by (simp add: test4_parent testcow_parent starts_with_def)
  qed
qed

theorem verdict_ignores_first_two_counts_witness:
  "verdict_lines (trace (test4_main
      \<lparr>free_pages = pages4 7 5 99 98, malloc_ret = 0x1000, fork_ret = 3\<rparr>
      (start zero_memory)))
   = verdict_lines (trace (test4_main
      \<lparr>free_pages = pages4 100 99 99 98, malloc_ret = 0x1000, fork_ret = 3\<rparr>
      (start zero_memory)))
   \<and> verdict_lines (trace (testcow_main
      \<lparr>free_pages = pages4 7 5 99 98, malloc_ret = 0x1000, fork_ret = 3\<rparr>
      (start zero_memory)))
   = verdict_lines (trace (testcow_main
      \<lparr>free_pages = pages4 100 99 99 98, malloc_ret = 0x1000, fork_ret = 3\<rparr>
      (start zero_memory)))
   \<and> pages4 7 5 99 98 0 \<noteq> pages4 100 99 99 98 0
   \<and> pages4 7 5 99 98 1 \<noteq> pages4 100 99 99 98 1"
  using verdict_ignores_first_two_counts
    [of "\<lparr>free_pages = pages4 7 5 99 98, malloc_ret = 0x1000, fork_ret = 3\<rparr>"
        "\<lparr>free_pages = pages4 100 99 99 98, malloc_ret = 0x1000, fork_ret = 3\<rparr>"
        zero_memory]
  by (simp add: pages4_def)

text \<open>
  C10. When malloc and fork both succeed, the process prints exactly one verdict line:
  either a \<open>COW mechanism working!\<close> line or a \<open>Something went wrong\<close> line.
\<close>

theorem exactly_one_verdict:
  assumes "malloc_ret k \<noteq> 0" and "0 \<le>s fork_ret k"
  shows "(verdicts (trace (test4_main k (start m))) = [CowWorking]
          \<or> verdicts (trace (test4_main k (start m))) = [WentWrong])
       \<and> length (verdict_lines (trace (test4_main k (start m)))) = 1
       \<and> (verdicts (trace (testcow_main k (start m))) = [CowWorking]
          \<or> verdicts (trace (testcow_main k (start m))) = [WentWrong])
       \<and> length (verdict_lines (trace (testcow_main k (start m)))) = 1"
proof (cases "fork_ret k = 0")
  case True
  with assms show ?thesis
    by (simp add: test4_child testcow_child starts_with_def)
next
  case False
  moreover from assms have "\<not> fork_ret k <s 0"
    by (simp add: signed.not_less)
  ultimately show ?thesis
    using assms by (simp add: test4_parent testcow_parent starts_with_def)
qed

theorem exactly_one_verdict_witness:
  "malloc_ret \<lparr>free_pages = pages4 100 99 99 98, malloc_ret = 0x1000, fork_ret = 0\<rparr> \<noteq> 0
   \<and> 0 \<le>s fork_ret \<lparr>free_pages = pages4 100 99 99 98, malloc_ret = 0x1000, fork_ret = 0\<rparr>
   \<and> (verdicts (trace (test4_main
        \<lparr>free_pages = pages4 100 99 99 98, malloc_ret = 0x1000, fork_ret = 0\<rparr>
        (start zero_memory))) = [CowWorking]
      \<or> verdicts (trace (test4_main
        \<lparr>free_pages = pages4 100 99 99 98, malloc_ret = 0x1000, fork_ret = 0\<rparr>
        (start zero_memory))) = [WentWrong])
   \<and> length (verdict_lines (trace (test4_main
        \<lparr>free_pages = pages4 100 99 99 98, malloc_ret = 0x1000, fork_ret = 0\<rparr>
        (start zero_memory)))) = 1
   \<and> length (verdict_lines (trace (testcow_main
        \<lparr>free_pages = pages4 100 99 99 98, malloc_ret = 0x1000, fork_ret = 0\<rparr>
        (start zero_memory)))) = 1"
  using exactly_one_verdict
    [of "\<lparr>free_pages = pages4 100 99 99 98, malloc_ret = 0x1000, fork_ret = 0\<rparr>" zero_memory]
  by (simp add: word_sle_eq)

end
